theory Spec2Isabelle
  imports Complex_Main "HOL-Library.Word" "HOL-Library.Sublist"
begin

unbundle bit_operations_syntax

section \<open>The video pipe of \<^verbatim>\<open>Vitis/common/src/pipe.c\<close>\<close>

text \<open>
  \<^verbatim>\<open>pipe.c\<close> sequences calls into the Xilinx and camera drivers. The drivers, the
  headers \<^verbatim>\<open>pipe.h\<close> and \<^verbatim>\<open>config.h\<close> and the C library are not part of the
  file. The embedding therefore has three parameters:
  \<^item> \<open>config\<close>: the macros of \<^verbatim>\<open>config.h\<close> and \<^verbatim>\<open>pipe.h\<close> the two functions use;
  \<^item> \<open>drivers\<close>: what each driver call answers (its status, and what it stores through
    the pointers it is given). Every call site of \<^verbatim>\<open>pipe_init\<close> outside the gamma loop
    runs at most once, so one answer per call site describes any driver behaviour;
  \<^item> \<open>fpu\<close>: the floating-point operations of the gamma expression.
  What the functions do to the hardware is the list of driver calls they make, in order,
  with the arguments \<^verbatim>\<open>pipe.c\<close> computes; the driver instances inside the pipe
  (\<^verbatim>\<open>Gpio\<close>, \<^verbatim>\<open>Iic\<close>, \<^verbatim>\<open>Demosaic\<close> and the others) and the interrupt controller
  are only handed on to the drivers; \<^verbatim>\<open>pipe_init\<close> passes the address of the member of
  the one pipe it is given, so a call of \<^verbatim>\<open>pipe_init\<close> is written without it.
\<close>

subsection \<open>Types and constants\<close>

type_synonym u8 = "8 word"
type_synonym u16 = "16 word"
type_synonym u32 = "32 word"

text \<open>\<^verbatim>\<open>UINTPTR\<close> on the 64-bit targets of the design.\<close>

type_synonym UINTPTR = "64 word"

text \<open>The two status codes of \<^verbatim>\<open>xstatus.h\<close> (\<^verbatim>\<open>0L\<close> and \<^verbatim>\<open>1L\<close>).\<close>

definition XST_SUCCESS :: int where
  "XST_SUCCESS = 0"

definition XST_FAILURE :: int where
  "XST_FAILURE = 1"

text \<open>The macros of \<^verbatim>\<open>config.h\<close> and \<^verbatim>\<open>pipe.h\<close>; \<open>'d\<close> is the type of doubles.\<close>

record 'd config =
  GPIO_CAM_IO0_MASK :: u32
  GPIO_CAM_IO1_MASK :: u32
  VMODE_WIDTH :: u32
  VMODE_HEIGHT :: u32
  VMODE_FRAMERATE :: u32
  VPROC_WIDTH_OUT :: u32
  VPROC_HEIGHT_OUT :: u32
  VPROC_FRAMERATE_OUT :: u32
  COLOR_FORMAT_ID :: int
  GAMMA_TABLE_SIZE :: u32
  GAMMA :: 'd

text \<open>
  The arithmetic of line 106 on doubles: the conversions of a \<^verbatim>\<open>uint32_t\<close> to
  \<^verbatim>\<open>double\<close> and to \<^verbatim>\<open>float\<close> (the latter promoted to \<^verbatim>\<open>double\<close> by the
  multiplication), division, multiplication, \<^verbatim>\<open>pow\<close> and the conversion to
  \<^verbatim>\<open>uint16_t\<close>.
\<close>

record 'd fpu =
  u32_to_double :: "u32 \<Rightarrow> 'd"
  u32_to_float :: "u32 \<Rightarrow> 'd"
  fdiv :: "'d \<Rightarrow> 'd \<Rightarrow> 'd"
  fmul :: "'d \<Rightarrow> 'd \<Rightarrow> 'd"
  pow :: "'d \<Rightarrow> 'd \<Rightarrow> 'd"
  double_to_u16 :: "'d \<Rightarrow> u16"

record VideoPipeDevIds =
  Gpio :: u32
  Iic :: u32
  IicIntr :: u32
  FrmbufWr :: u32
  FrmbufWrIntr :: u32
  FrmbufRd :: u32
  FrmbufRdIntr :: u32
  FrmbufBufrBaseAddr :: UINTPTR
  Demosaic :: u32
  GammaLut :: u32
  Vproc :: u32

text \<open>The fields of \<^verbatim>\<open>XVprocSs_Config\<close> that \<^verbatim>\<open>pipe_init\<close> reads.\<close>

record XVprocSs_Config =
  BaseAddress :: UINTPTR
  ColorDepth :: int
  PixPerClock :: int

text \<open>The fields of \<^verbatim>\<open>XVidC_VideoStream\<close> that \<^verbatim>\<open>pipe_init\<close> assigns.\<close>

record 'tim XVidC_VideoStream =
  VmId :: int
  Timing :: 'tim
  ColorFormatId :: int
  ColorDepthS :: int
  PixPerClk :: int
  FrameRate :: int
  IsInterlaced :: u8

text \<open>
  The parts of \<^verbatim>\<open>VideoPipe\<close> that \<^verbatim>\<open>pipe.c\<close> reads or writes itself:
  \<^verbatim>\<open>pipe->GammaLut.Config.BaseAddress\<close>, \<^verbatim>\<open>pipe->Vproc.Config\<close> and
  \<^verbatim>\<open>pipe->IsConnected\<close>, and the two driver instances that both functions use,
  \<^verbatim>\<open>pipe->Camera\<close> and \<^verbatim>\<open>pipe->Frmbuf\<close>, whose contents only the drivers know.
\<close>

record ('cam, 'frm) VideoPipe =
  Camera :: 'cam
  Frmbuf :: 'frm
  GammaLut_Config_BaseAddress :: UINTPTR
  Vproc_Config :: XVprocSs_Config
  IsConnected :: bool

text \<open>
  A driver call with the arguments \<^verbatim>\<open>pipe.c\<close> passes. The calls of
  \<^verbatim>\<open>pipe_start_camera\<close> carry the instance they are given.
\<close>

datatype ('cam, 'frm, 'tim) call =
    XGpio_Initialize u32
  | XGpio_SetDataDirection u32 u32
  | XGpio_DiscreteWrite u32 u32
  | IicAxiInit u32 u32
  | rpi_cam_init u8 u32
  | FrmbufWrInit u32 u32 UINTPTR
  | FrmbufRdInit u32 u32 UINTPTR
  | XV_demosaic_Initialize u32
  | XV_demosaic_Set_HwReg_width u32
  | XV_demosaic_Set_HwReg_height u32
  | XV_demosaic_Set_HwReg_bayer_phase u32
  | XV_demosaic_EnableAutoRestart
  | XV_demosaic_Start
  | XV_gamma_lut_Initialize u32
  | XV_gamma_lut_Set_HwReg_width u32
  | XV_gamma_lut_Set_HwReg_height u32
  | XV_gamma_lut_Set_HwReg_video_format u32
  | Xil_Out16 UINTPTR u16
  | XV_gamma_lut_Start
  | XV_gamma_lut_EnableAutoRestart
  | XVprocSs_LookupConfig u32
  | XVprocSs_LogReset
  | XVprocSs_CfgInitialize XVprocSs_Config UINTPTR
  | XVprocSs_SetVidStreamIn "'tim XVidC_VideoStream"
  | XVprocSs_SetVidStreamOut "'tim XVidC_VideoStream"
  | XVprocSs_SetSubsystemConfig
  | rpi_cam_config 'cam
  | FrmbufStart 'frm
  | xil_printf string

text \<open>
  What the drivers answer. \<open>ret_f\<close> is the status \<open>f\<close> returns; \<open>out_x\<close> is what the
  call leaves in \<open>x\<close>, which it was given by pointer. The four \<^verbatim>\<open>XVidC\<close> functions are
  look-ups in the video-mode table; \<^verbatim>\<open>XVidC_GetTimingInfo\<close> returns a pointer, which is
  \<^verbatim>\<open>NULL\<close> (\<open>None\<close>) for a mode the table does not have.
\<close>

record ('cam, 'frm, 'tim) drivers =
  ret_XGpio_Initialize :: int
  ret_IicAxiInit :: int
  out_iic_id :: u8
  ret_rpi_cam_init :: int
  out_Camera :: 'cam
  ret_FrmbufWrInit :: int
  out_Frmbuf_Wr :: 'frm
  ret_FrmbufRdInit :: int
  out_Frmbuf_Rd :: 'frm
  ret_XV_demosaic_Initialize :: int
  rpi_cam_bayer_phase :: "'cam \<Rightarrow> u32"
  ret_XV_gamma_lut_Initialize :: int
  out_GammaLut_Config_BaseAddress :: UINTPTR
  ret_XVprocSs_LookupConfig :: "XVprocSs_Config option"
  ret_XVprocSs_CfgInitialize :: int
  out_Vproc_Config :: XVprocSs_Config
  XVidC_GetVideoModeId :: "u32 \<Rightarrow> u32 \<Rightarrow> u32 \<Rightarrow> bool \<Rightarrow> int"
  XVidC_GetTimingInfo :: "int \<Rightarrow> 'tim option"
  XVidC_GetFrameRate :: "int \<Rightarrow> int"
  XVidC_IsInterlaced :: "int \<Rightarrow> u8"
  ret_XVprocSs_SetSubsystemConfig :: int
  ret_rpi_cam_config :: int
  ret_FrmbufStart :: int

text \<open>
  How a run of \<^verbatim>\<open>pipe_init\<close> ends: it returns a status, or it dereferences the
  \<^verbatim>\<open>NULL\<close> pointer \<^verbatim>\<open>TimingPtr\<close> (lines 136 and 148), which C leaves undefined.
\<close>

datatype outcome = Return int | NullDereference

record ('cam, 'frm, 'tim) result =
  ret :: outcome
  pipe_after :: "('cam, 'frm) VideoPipe"
  calls :: "('cam, 'frm, 'tim) call list"

subsection \<open>The gamma table loop (lines 104 to 110)\<close>

definition gamma_value :: "'d fpu \<Rightarrow> 'd config \<Rightarrow> u32 \<Rightarrow> u16" where
  "gamma_value fp cfg i =
     double_to_u16 fp
       (fmul fp
          (pow fp (fdiv fp (u32_to_double fp i) (u32_to_double fp (GAMMA_TABLE_SIZE cfg)))
             (GAMMA cfg))
          (u32_to_float fp (GAMMA_TABLE_SIZE cfg)))"

text \<open>
  One pass of the loop body: \<^verbatim>\<open>i*2\<close> is a \<^verbatim>\<open>uint32_t\<close> product, widened when it is
  added to the base address.
\<close>

definition gamma_writes ::
  "'d fpu \<Rightarrow> 'd config \<Rightarrow> UINTPTR \<Rightarrow> u32 \<Rightarrow> ('cam, 'frm, 'tim) call list" where
  "gamma_writes fp cfg base i =
     (let v = gamma_value fp cfg i in
      [Xil_Out16 (base + 0x800 + ucast (i * 2)) v,
       Xil_Out16 (base + 0x1000 + ucast (i * 2)) v,
       Xil_Out16 (base + 0x1800 + ucast (i * 2)) v])"

lemma unat_succ_below:
  fixes i n :: u32
  assumes "i < n"
  shows "unat (i + 1) = Suc (unat i)"
proof -
  from assms have lt: "unat i < unat n"
    by (simp add: word_less_nat_alt)
  have "unat n < 2 ^ 32"
    using unsigned_less [of n] by simp
  with lt have "unat i + 1 < 2 ^ 32"
    by simp
  then show ?thesis
    by (simp add: unat_word_ariths)
qed

lemma gamma_loop_measure:
  fixes i n :: u32
  assumes "i < n"
  shows "unat n - unat (i + 1) < unat n - unat i"
proof -
  from assms have "unat i < unat n"
    by (simp add: word_less_nat_alt)
  with unat_succ_below [OF assms] show ?thesis
    by simp
qed

function gamma_loop ::
  "'d fpu \<Rightarrow> 'd config \<Rightarrow> UINTPTR \<Rightarrow> u32 \<Rightarrow> ('cam, 'frm, 'tim) call list" where
  "gamma_loop fp cfg base i =
     (if i < GAMMA_TABLE_SIZE cfg
      then gamma_writes fp cfg base i @ gamma_loop fp cfg base (i + 1)
      else [])"
  by pat_completeness auto
termination
  by (relation "measure (\<lambda>(fp, cfg, base, i). unat (GAMMA_TABLE_SIZE cfg) - unat i)")
     (simp_all add: gamma_loop_measure)

declare gamma_loop.simps [simp del]

subsection \<open>\<^verbatim>\<open>pipe_init\<close> (lines 25 to 162)\<close>

text \<open>Carriage return and line feed, for the messages of \<^verbatim>\<open>xil_printf\<close>.\<close>

definition CR :: char where
  "CR = CHR 0x0D"

definition LF :: char where
  "LF = CHR 0x0A"

text \<open>
  The body of \<^verbatim>\<open>pipe_init\<close>, statement by statement. \<open>t\<^sub>k\<close> is the list of driver calls
  made so far and \<open>p\<^sub>k\<close> the pipe; every \<^verbatim>\<open>return\<close> of the source is one \<open>result\<close>.
  The status of \<^verbatim>\<open>XV_demosaic_Initialize\<close> (line 86) is dropped and the status of
  \<^verbatim>\<open>XVprocSs_SetSubsystemConfig\<close> (line 157) is stored in \<^verbatim>\<open>Status\<close> and not read
  again, so neither \<open>ret_XV_demosaic_Initialize\<close> nor \<open>ret_XVprocSs_SetSubsystemConfig\<close>
  occurs below. Line 64 compares with \<^verbatim>\<open>XST_FAILURE\<close>, the other checks with
  \<^verbatim>\<open>XST_SUCCESS\<close>.
\<close>

definition pipe_init ::
  "'d fpu \<Rightarrow> 'd config \<Rightarrow> ('cam, 'frm, 'tim) drivers \<Rightarrow> ('cam, 'frm) VideoPipe
     \<Rightarrow> VideoPipeDevIds \<Rightarrow> ('cam, 'frm, 'tim) result" where
  "pipe_init fp cfg env pipe devids =
    (let t1 = [XGpio_Initialize (Gpio devids)] in
     if ret_XGpio_Initialize env \<noteq> XST_SUCCESS then
       \<lparr>ret = Return XST_FAILURE, pipe_after = pipe,
        calls = t1 @ [xil_printf (''Gpio Initialization Failed'' @ [CR, LF])]\<rparr>
     else
     let t2 = t1 @
           [XGpio_SetDataDirection 1
              (NOT (GPIO_CAM_IO0_MASK cfg + GPIO_CAM_IO1_MASK cfg)),
            XGpio_DiscreteWrite 1 (GPIO_CAM_IO0_MASK cfg),
            IicAxiInit (Iic devids) (IicIntr devids)];
         iic_id = out_iic_id env in
     if ret_IicAxiInit env \<noteq> XST_SUCCESS then
       \<lparr>ret = Return XST_FAILURE, pipe_after = pipe,
        calls = t2 @ [xil_printf (''Failed to initialize the I2C'' @ [LF, CR])]\<rparr>
     else
     let t3 = t2 @ [rpi_cam_init iic_id (GPIO_CAM_IO0_MASK cfg)];
         p3 = pipe\<lparr>Camera := out_Camera env\<rparr> in
     if ret_rpi_cam_init env = XST_FAILURE then
       \<lparr>ret = Return XST_FAILURE, pipe_after = p3\<lparr>IsConnected := False\<rparr>, calls = t3\<rparr>
     else
     let t4 = t3 @
           [FrmbufWrInit (FrmbufWr devids) (FrmbufWrIntr devids) (FrmbufBufrBaseAddr devids)];
         p4 = p3\<lparr>Frmbuf := out_Frmbuf_Wr env\<rparr> in
     if ret_FrmbufWrInit env \<noteq> XST_SUCCESS then
       \<lparr>ret = Return XST_FAILURE, pipe_after = p4,
        calls = t4 @
          [xil_printf (''Failed to initialize the Frame Buffer Write'' @ [LF, CR])]\<rparr>
     else
     let t5 = t4 @
           [FrmbufRdInit (FrmbufRd devids) (FrmbufRdIntr devids) (FrmbufBufrBaseAddr devids)];
         p5 = p4\<lparr>Frmbuf := out_Frmbuf_Rd env\<rparr> in
     if ret_FrmbufRdInit env \<noteq> XST_SUCCESS then
       \<lparr>ret = Return XST_FAILURE, pipe_after = p5,
        calls = t5 @
          [xil_printf (''Failed to initialize the Frame Buffer Read'' @ [LF, CR])]\<rparr>
     else
     let t6 = t5 @
           [XV_demosaic_Initialize (Demosaic devids),
            XV_demosaic_Set_HwReg_width (VMODE_WIDTH cfg),
            XV_demosaic_Set_HwReg_height (VMODE_HEIGHT cfg),
            XV_demosaic_Set_HwReg_bayer_phase (rpi_cam_bayer_phase env (Camera p5)),
            XV_demosaic_EnableAutoRestart,
            XV_demosaic_Start,
            XV_gamma_lut_Initialize (GammaLut devids)];
         p6 = p5\<lparr>GammaLut_Config_BaseAddress := out_GammaLut_Config_BaseAddress env\<rparr> in
     if ret_XV_gamma_lut_Initialize env \<noteq> XST_SUCCESS then
       \<lparr>ret = Return XST_FAILURE, pipe_after = p6,
        calls = t6 @
          [xil_printf (''ERROR: Failed to initialize the Gamma LUT'' @ [LF, CR])]\<rparr>
     else
     let t7 = t6 @
           [XV_gamma_lut_Set_HwReg_width (VMODE_WIDTH cfg),
            XV_gamma_lut_Set_HwReg_height (VMODE_HEIGHT cfg),
            XV_gamma_lut_Set_HwReg_video_format 0] @
           gamma_loop fp cfg (GammaLut_Config_BaseAddress p6) 0 @
           [XV_gamma_lut_Start,
            XV_gamma_lut_EnableAutoRestart,
            XVprocSs_LookupConfig (Vproc devids)] in
     (case ret_XVprocSs_LookupConfig env of
       None \<Rightarrow>
         \<lparr>ret = Return XST_FAILURE, pipe_after = p6,
          calls = t7 @
            [xil_printf
               (''ERROR: Video Processor Subsystem device not found'' @ [CR, LF])]\<rparr>
     | Some VprocSsConfig \<Rightarrow>
     let t8 = t7 @
           [XVprocSs_LogReset,
            XVprocSs_CfgInitialize VprocSsConfig (BaseAddress VprocSsConfig)];
         p8 = p6\<lparr>Vproc_Config := out_Vproc_Config env\<rparr> in
     if ret_XVprocSs_CfgInitialize env \<noteq> XST_SUCCESS then
       \<lparr>ret = Return XST_FAILURE, pipe_after = p8,
        calls = t8 @
          [xil_printf (''ERROR: Video Processing Subsystem Init. error'' @ [LF, CR])]\<rparr>
     else
     let resId = XVidC_GetVideoModeId env
           (VMODE_WIDTH cfg) (VMODE_HEIGHT cfg) (VMODE_FRAMERATE cfg) False in
     (case XVidC_GetTimingInfo env resId of
       None \<Rightarrow> \<lparr>ret = NullDereference, pipe_after = p8, calls = t8\<rparr>
     | Some TimingIn \<Rightarrow>
     let StreamIn =
           \<lparr>VmId = resId,
            Timing = TimingIn,
            ColorFormatId = COLOR_FORMAT_ID cfg,
            ColorDepthS = ColorDepth (Vproc_Config p8),
            PixPerClk = PixPerClock (Vproc_Config p8),
            FrameRate = XVidC_GetFrameRate env resId,
            IsInterlaced = XVidC_IsInterlaced env resId\<rparr>;
         t9 = t8 @ [XVprocSs_SetVidStreamIn StreamIn];
         resId = XVidC_GetVideoModeId env
           (VPROC_WIDTH_OUT cfg) (VPROC_HEIGHT_OUT cfg) (VPROC_FRAMERATE_OUT cfg) False in
     (case XVidC_GetTimingInfo env resId of
       None \<Rightarrow> \<lparr>ret = NullDereference, pipe_after = p8, calls = t9\<rparr>
     | Some TimingOut \<Rightarrow>
     let StreamOut =
           \<lparr>VmId = resId,
            Timing = TimingOut,
            ColorFormatId = COLOR_FORMAT_ID cfg,
            ColorDepthS = ColorDepth (Vproc_Config p8),
            PixPerClk = PixPerClock (Vproc_Config p8),
            FrameRate = XVidC_GetFrameRate env resId,
            IsInterlaced = XVidC_IsInterlaced env resId\<rparr>;
         t10 = t9 @ [XVprocSs_SetVidStreamOut StreamOut, XVprocSs_SetSubsystemConfig] in
     \<lparr>ret = Return XST_SUCCESS, pipe_after = p8\<lparr>IsConnected := True\<rparr>, calls = t10\<rparr>))))"

subsection \<open>\<^verbatim>\<open>pipe_start_camera\<close> (lines 164 to 173)\<close>

text \<open>
  \<^verbatim>\<open>Status\<close> is assigned twice and returned once: the value returned is the status of
  \<^verbatim>\<open>FrmbufStart\<close>. The model returns that status and the calls made.
\<close>

definition pipe_start_camera ::
  "('cam, 'frm, 'tim) drivers \<Rightarrow> ('cam, 'frm) VideoPipe \<Rightarrow> int \<times> ('cam, 'frm, 'tim) call list" where
  "pipe_start_camera env pipe =
    (let Status = ret_rpi_cam_config env;
         t1 = [rpi_cam_config (Camera pipe)];
         Status = ret_FrmbufStart env;
         t2 = t1 @ [FrmbufStart (Frmbuf pipe)]
     in (Status, t2))"

subsection \<open>Reading the list of calls\<close>

text \<open>The eight initialisation steps, and the call that performs each.\<close>

datatype init_step = GPIO | I2C | CAMERA | FRMBUF_WR | FRMBUF_RD | DEMOSAIC | GAMMA_LUT | VPROC

fun init_step_of :: "('cam, 'frm, 'tim) call \<Rightarrow> init_step option" where
  "init_step_of (XGpio_Initialize _) = Some GPIO"
| "init_step_of (IicAxiInit _ _) = Some I2C"
| "init_step_of (rpi_cam_init _ _) = Some CAMERA"
| "init_step_of (FrmbufWrInit _ _ _) = Some FRMBUF_WR"
| "init_step_of (FrmbufRdInit _ _ _) = Some FRMBUF_RD"
| "init_step_of (XV_demosaic_Initialize _) = Some DEMOSAIC"
| "init_step_of (XV_gamma_lut_Initialize _) = Some GAMMA_LUT"
| "init_step_of (XVprocSs_CfgInitialize _ _) = Some VPROC"
| "init_step_of _ = None"

fun init_steps :: "('cam, 'frm, 'tim) call list \<Rightarrow> init_step list" where
  "init_steps [] = []"
| "init_steps (c # cs) =
     (case init_step_of c of None \<Rightarrow> init_steps cs | Some s \<Rightarrow> s # init_steps cs)"



text \<open>The calls that bring up the camera: the I2C bus to it, and the sensor.\<close>

fun is_camera_bringup :: "('cam, 'frm, 'tim) call \<Rightarrow> bool" where
  "is_camera_bringup (IicAxiInit _ _) = True"
| "is_camera_bringup (rpi_cam_init _ _) = True"
| "is_camera_bringup _ = False"


subsection \<open>A concrete board\<close>

text \<open>
  One setting of the parameters, on which the functions are run below: a table of two
  gamma entries with exponent 1, exact arithmetic in place of the doubles, and drivers
  that all report success.
\<close>

definition test_fpu :: "real fpu" where
  "test_fpu =
    \<lparr>u32_to_double = (\<lambda>w. real (unat w)),
     u32_to_float = (\<lambda>w. real (unat w)),
     fdiv = (\<lambda>a b. a / b),
     fmul = (\<lambda>a b. a * b),
     pow = (\<lambda>a b. a ^ nat \<lfloor>b\<rfloor>),
     double_to_u16 = (\<lambda>a. word_of_int \<lfloor>a\<rfloor>)\<rparr>"

definition test_config :: "real config" where
  "test_config =
    \<lparr>GPIO_CAM_IO0_MASK = 1,
     GPIO_CAM_IO1_MASK = 2,
     VMODE_WIDTH = 1920,
     VMODE_HEIGHT = 1080,
     VMODE_FRAMERATE = 30,
     VPROC_WIDTH_OUT = 1280,
     VPROC_HEIGHT_OUT = 720,
     VPROC_FRAMERATE_OUT = 60,
     COLOR_FORMAT_ID = 0,
     GAMMA_TABLE_SIZE = 2,
     GAMMA = 1\<rparr>"

definition test_devids :: VideoPipeDevIds where
  "test_devids =
    \<lparr>Gpio = 0, Iic = 1, IicIntr = 121, FrmbufWr = 2, FrmbufWrIntr = 122, FrmbufRd = 3,
     FrmbufRdIntr = 123, FrmbufBufrBaseAddr = 0x10000000, Demosaic = 4, GammaLut = 5,
     Vproc = 6\<rparr>"

definition test_vproc_config :: XVprocSs_Config where
  "test_vproc_config = \<lparr>BaseAddress = 0xA0100000, ColorDepth = 8, PixPerClock = 2\<rparr>"

definition test_pipe :: "(nat, nat) VideoPipe" where
  "test_pipe =
    \<lparr>Camera = 0, Frmbuf = 0, GammaLut_Config_BaseAddress = 0,
     Vproc_Config = \<lparr>BaseAddress = 0, ColorDepth = 0, PixPerClock = 0\<rparr>,
     IsConnected = True\<rparr>"

definition test_drivers :: "(nat, nat, nat) drivers" where
  "test_drivers =
    \<lparr>ret_XGpio_Initialize = XST_SUCCESS,
     ret_IicAxiInit = XST_SUCCESS,
     out_iic_id = 7,
     ret_rpi_cam_init = XST_SUCCESS,
     out_Camera = 5640,
     ret_FrmbufWrInit = XST_SUCCESS,
     out_Frmbuf_Wr = 1,
     ret_FrmbufRdInit = XST_SUCCESS,
     out_Frmbuf_Rd = 2,
     ret_XV_demosaic_Initialize = XST_SUCCESS,
     rpi_cam_bayer_phase = (\<lambda>cam. if cam = 5640 then 3 else 0),
     ret_XV_gamma_lut_Initialize = XST_SUCCESS,
     out_GammaLut_Config_BaseAddress = 0xA0000000,
     ret_XVprocSs_LookupConfig = Some test_vproc_config,
     ret_XVprocSs_CfgInitialize = XST_SUCCESS,
     out_Vproc_Config = test_vproc_config,
     XVidC_GetVideoModeId = (\<lambda>w h f i. if i then 0 else if f = 30 then 1 else 2),
     XVidC_GetTimingInfo =
       (\<lambda>m. if m = 1 then Some 100 else if m = 2 then Some 200 else None),
     XVidC_GetFrameRate = (\<lambda>m. if m = 1 then 30 else 60),
     XVidC_IsInterlaced = (\<lambda>m. 0),
     ret_XVprocSs_SetSubsystemConfig = XST_SUCCESS,
     ret_rpi_cam_config = XST_SUCCESS,
     ret_FrmbufStart = XST_SUCCESS\<rparr>"

lemmas test_defs =
  test_fpu_def test_config_def test_devids_def test_vproc_config_def test_pipe_def
  test_drivers_def XST_SUCCESS_def XST_FAILURE_def CR_def LF_def

section \<open>Properties of the gamma loop\<close>

text \<open>The loop runs its body once for each index below the table size, in order.\<close>

lemma gamma_loop_closed:
  "(gamma_loop fp cfg base i :: ('cam, 'frm, 'tim) call list) =
     concat (map (\<lambda>k. gamma_writes fp cfg base (of_nat k))
       [unat i ..< unat (GAMMA_TABLE_SIZE cfg)])"
proof (induction fp cfg base i rule: gamma_loop.induct)
  case (1 fp cfg base i)
  show ?case
  proof (cases "i < GAMMA_TABLE_SIZE cfg")
    case True
    then have lt: "unat i < unat (GAMMA_TABLE_SIZE cfg)"
      by (simp add: word_less_nat_alt)
    have step: "unat (i + 1) = Suc (unat i)"
      using True by (rule unat_succ_below)
    have "(gamma_loop fp cfg base i :: ('cam, 'frm, 'tim) call list) =
        gamma_writes fp cfg base i @ gamma_loop fp cfg base (i + 1)"
      using True by (subst gamma_loop.simps) simp
    also have "\<dots> = gamma_writes fp cfg base (of_nat (unat i)) @
        concat (map (\<lambda>k. gamma_writes fp cfg base (of_nat k))
          [Suc (unat i) ..< unat (GAMMA_TABLE_SIZE cfg)])"
      using "1.IH" [OF True] step by simp
    also have "\<dots> = concat (map (\<lambda>k. gamma_writes fp cfg base (of_nat k))
        [unat i ..< unat (GAMMA_TABLE_SIZE cfg)])"
      using lt by (simp add: upt_conv_Cons)
    finally show ?thesis .
  next
    case False
    then have "unat (GAMMA_TABLE_SIZE cfg) \<le> unat i"
      by (simp add: word_less_nat_alt)
    with False show ?thesis
      by (subst gamma_loop.simps) simp
  qed
qed


text \<open>Every call of the loop is a write of \<^verbatim>\<open>Xil_Out16\<close>.\<close>

lemma gamma_loop_only_writes:
  "c \<in> set (gamma_loop fp cfg base i) \<Longrightarrow> \<exists>a v. c = Xil_Out16 a v"
  by (auto simp add: gamma_loop_closed gamma_writes_def Let_def)



lemma init_steps_append: "init_steps (xs @ ys) = init_steps xs @ init_steps ys"
  by (induction xs) (simp_all split: option.split)

lemma init_steps_only_writes:
  assumes "\<And>c. c \<in> set cs \<Longrightarrow> \<exists>a v. c = Xil_Out16 a v"
  shows "init_steps cs = []"
  using assms
proof (induction cs)
  case Nil
  show ?case by simp
next
  case (Cons c cs)
  from Cons.prems [of c] obtain a v where "c = Xil_Out16 a v"
    by auto
  moreover have "init_steps cs = []"
    using Cons.IH Cons.prems by simp
  ultimately show ?case
    by simp
qed

lemma init_steps_gamma_loop: "init_steps (gamma_loop fp cfg base i) = []"
  by (rule init_steps_only_writes) (rule gamma_loop_only_writes)

section \<open>\<^verbatim>\<open>pipe_start_camera\<close>\<close>

text \<open>The status returned is the one \<^verbatim>\<open>FrmbufStart\<close> reported, whatever the camera said.\<close>

lemma pipe_start_camera_status:
  "fst (pipe_start_camera env pipe) = ret_FrmbufStart env"
  by (simp add: pipe_start_camera_def)

text \<open>
  Claim C2 says that \<^verbatim>\<open>pipe_start_camera\<close> returns a failure status when
  \<^verbatim>\<open>rpi_cam_config\<close> reports failure. The code overwrites that status with the one of
  \<^verbatim>\<open>FrmbufStart\<close>: with a camera that fails to start and a frame buffer that starts,
  both calls are made and \<^verbatim>\<open>XST_SUCCESS\<close> is returned.
\<close>

theorem pipe_start_camera_camera_failure_lost:
  "pipe_start_camera (test_drivers\<lparr>ret_rpi_cam_config := XST_FAILURE\<rparr>) test_pipe =
     (XST_SUCCESS, [rpi_cam_config 0, FrmbufStart 0])"
  by (simp add: pipe_start_camera_def test_defs)

text \<open>
  Claim C4: for every pipe and whatever the drivers answer, \<^verbatim>\<open>pipe_start_camera\<close>
  makes exactly two calls: \<^verbatim>\<open>rpi_cam_config\<close> on the camera of the pipe, then
  \<^verbatim>\<open>FrmbufStart\<close> on the frame buffer of the pipe.
\<close>

theorem pipe_start_camera_order:
  "snd (pipe_start_camera env pipe) =
     [rpi_cam_config (Camera pipe), FrmbufStart (Frmbuf pipe)]"
  by (simp add: pipe_start_camera_def)

section \<open>\<^verbatim>\<open>pipe_init\<close>\<close>

subsection \<open>Statuses that are not checked\<close>

text \<open>
  The result of \<^verbatim>\<open>pipe_init\<close> does not depend on what \<^verbatim>\<open>XV_demosaic_Initialize\<close> and
  \<^verbatim>\<open>XVprocSs_SetSubsystemConfig\<close> return.
\<close>

lemma pipe_init_ignores:
  "pipe_init fp cfg
     (env\<lparr>ret_XV_demosaic_Initialize := a, ret_XVprocSs_SetSubsystemConfig := b\<rparr>)
     pipe devids =
   pipe_init fp cfg env pipe devids"
  by (simp add: pipe_init_def Let_def cong: if_cong option.case_cong)

text \<open>
  Claim C1 says that every initialisation step that reports failure makes \<^verbatim>\<open>pipe_init\<close>
  return \<^verbatim>\<open>XST_FAILURE\<close> at once, the demosaic initialisation and
  \<^verbatim>\<open>XVprocSs_SetSubsystemConfig\<close> among them. On the concrete board, with a demosaic
  core that fails to initialise, \<^verbatim>\<open>pipe_init\<close> goes on through the gamma LUT and the
  video processing subsystem, returns \<^verbatim>\<open>XST_SUCCESS\<close> and marks the pipe connected; it
  does the same when \<^verbatim>\<open>XVprocSs_SetSubsystemConfig\<close> fails.
\<close>

theorem pipe_init_unchecked_failure:
  "ret (pipe_init test_fpu test_config
         (test_drivers\<lparr>ret_XV_demosaic_Initialize := XST_FAILURE\<rparr>)
         test_pipe test_devids) = Return XST_SUCCESS \<and>
   init_steps (calls (pipe_init test_fpu test_config
         (test_drivers\<lparr>ret_XV_demosaic_Initialize := XST_FAILURE\<rparr>)
         test_pipe test_devids)) =
     [GPIO, I2C, CAMERA, FRMBUF_WR, FRMBUF_RD, DEMOSAIC, GAMMA_LUT, VPROC] \<and>
   ret (pipe_init test_fpu test_config
         (test_drivers\<lparr>ret_XVprocSs_SetSubsystemConfig := XST_FAILURE\<rparr>)
         test_pipe test_devids) = Return XST_SUCCESS \<and>
   IsConnected (pipe_after (pipe_init test_fpu test_config
         (test_drivers\<lparr>ret_XVprocSs_SetSubsystemConfig := XST_FAILURE\<rparr>)
         test_pipe test_devids))"
  by (simp add: pipe_init_def Let_def init_steps_append init_steps_gamma_loop test_defs)

subsection \<open>Order of the initialisation steps\<close>

text \<open>
  Claim C3: the initialisation calls of \<^verbatim>\<open>pipe_init\<close> are made in the order GPIO, I2C,
  camera, frame buffer write, frame buffer read, demosaic, gamma LUT, video processing
  subsystem. When the checked steps succeed (and the two video modes are in the timing
  table) the run makes all eight, in that order, and returns \<^verbatim>\<open>XST_SUCCESS\<close>; and any
  run, here with drivers \<open>env'\<close>, makes a prefix of that sequence.
\<close>

theorem pipe_init_order:
  assumes "ret_XGpio_Initialize env = XST_SUCCESS"
    and "ret_IicAxiInit env = XST_SUCCESS"
    and "ret_rpi_cam_init env = XST_SUCCESS"
    and "ret_FrmbufWrInit env = XST_SUCCESS"
    and "ret_FrmbufRdInit env = XST_SUCCESS"
    and "ret_XV_gamma_lut_Initialize env = XST_SUCCESS"
    and "ret_XVprocSs_LookupConfig env = Some c"
    and "ret_XVprocSs_CfgInitialize env = XST_SUCCESS"
    and "XVidC_GetTimingInfo env
           (XVidC_GetVideoModeId env
              (VMODE_WIDTH cfg) (VMODE_HEIGHT cfg) (VMODE_FRAMERATE cfg) False) = Some ti"
    and "XVidC_GetTimingInfo env
           (XVidC_GetVideoModeId env
              (VPROC_WIDTH_OUT cfg) (VPROC_HEIGHT_OUT cfg) (VPROC_FRAMERATE_OUT cfg) False) =
         Some to"
  shows "ret (pipe_init fp cfg env pipe devids) = Return XST_SUCCESS \<and>
    init_steps (calls (pipe_init fp cfg env pipe devids)) =
      [GPIO, I2C, CAMERA, FRMBUF_WR, FRMBUF_RD, DEMOSAIC, GAMMA_LUT, VPROC] \<and>
    prefix (init_steps (calls (pipe_init fp cfg env' pipe' devids')))
      [GPIO, I2C, CAMERA, FRMBUF_WR, FRMBUF_RD, DEMOSAIC, GAMMA_LUT, VPROC]"
proof -
  have "prefix (init_steps (calls (pipe_init fp cfg env' pipe' devids')))
      [GPIO, I2C, CAMERA, FRMBUF_WR, FRMBUF_RD, DEMOSAIC, GAMMA_LUT, VPROC]"
    by (simp add: pipe_init_def Let_def init_steps_append init_steps_gamma_loop
        split: option.split)
  moreover have "ret (pipe_init fp cfg env pipe devids) = Return XST_SUCCESS"
    using assms by (simp add: pipe_init_def Let_def XST_SUCCESS_def XST_FAILURE_def)
  moreover have "init_steps (calls (pipe_init fp cfg env pipe devids)) =
      [GPIO, I2C, CAMERA, FRMBUF_WR, FRMBUF_RD, DEMOSAIC, GAMMA_LUT, VPROC]"
    using assms
    by (simp add: pipe_init_def Let_def init_steps_append init_steps_gamma_loop
        XST_SUCCESS_def XST_FAILURE_def)
  ultimately show ?thesis
    by simp
qed

theorem pipe_init_order_witness:
  "ret (pipe_init test_fpu test_config test_drivers test_pipe test_devids) =
     Return XST_SUCCESS \<and>
   init_steps (calls (pipe_init test_fpu test_config test_drivers test_pipe test_devids)) =
     [GPIO, I2C, CAMERA, FRMBUF_WR, FRMBUF_RD, DEMOSAIC, GAMMA_LUT, VPROC] \<and>
   init_steps (calls (pipe_init test_fpu test_config
       (test_drivers\<lparr>ret_FrmbufWrInit := 5\<rparr>) test_pipe test_devids)) =
     [GPIO, I2C, CAMERA, FRMBUF_WR]"
proof -
  have ok: "ret_XGpio_Initialize test_drivers = XST_SUCCESS"
    "ret_IicAxiInit test_drivers = XST_SUCCESS"
    "ret_rpi_cam_init test_drivers = XST_SUCCESS"
    "ret_FrmbufWrInit test_drivers = XST_SUCCESS"
    "ret_FrmbufRdInit test_drivers = XST_SUCCESS"
    "ret_XV_gamma_lut_Initialize test_drivers = XST_SUCCESS"
    "ret_XVprocSs_LookupConfig test_drivers = Some test_vproc_config"
    "ret_XVprocSs_CfgInitialize test_drivers = XST_SUCCESS"
    by (simp_all add: test_drivers_def)
  have ti: "XVidC_GetTimingInfo test_drivers
      (XVidC_GetVideoModeId test_drivers (VMODE_WIDTH test_config)
         (VMODE_HEIGHT test_config) (VMODE_FRAMERATE test_config) False) = Some 100"
    by (simp add: test_drivers_def test_config_def)
  have to: "XVidC_GetTimingInfo test_drivers
      (XVidC_GetVideoModeId test_drivers (VPROC_WIDTH_OUT test_config)
         (VPROC_HEIGHT_OUT test_config) (VPROC_FRAMERATE_OUT test_config) False) = Some 200"
    by (simp add: test_drivers_def test_config_def)
  have last: "init_steps (calls (pipe_init test_fpu test_config
       (test_drivers\<lparr>ret_FrmbufWrInit := 5\<rparr>) test_pipe test_devids)) =
     [GPIO, I2C, CAMERA, FRMBUF_WR]"
    by (simp add: pipe_init_def Let_def test_defs)
  from pipe_init_order [where fp = test_fpu and pipe = test_pipe and devids = test_devids
      and env' = "test_drivers\<lparr>ret_FrmbufWrInit := 5\<rparr>" and pipe' = test_pipe
      and devids' = test_devids, OF ok ti to] last
  show ?thesis
    by simp
qed

subsection \<open>Runs that succeed\<close>



subsection \<open>The streams of the video processing subsystem\<close>



subsection \<open>Frame geometry\<close>



subsection \<open>Return values\<close>

text \<open>
  The value \<^verbatim>\<open>pipe_init\<close> returns is \<^verbatim>\<open>XST_SUCCESS\<close> or \<^verbatim>\<open>XST_FAILURE\<close>, whatever codes
  the drivers report; and it is \<^verbatim>\<open>XST_FAILURE\<close> exactly when one of the statuses that
  \<^verbatim>\<open>pipe_init\<close> checks is a failure: a status other than \<^verbatim>\<open>XST_SUCCESS\<close> from the GPIO,
  the I2C, a frame buffer, the gamma LUT or the configuration of the video processing
  subsystem, the status \<^verbatim>\<open>XST_FAILURE\<close> from the camera, or no configuration found for the
  video processing subsystem. The statuses of \<^verbatim>\<open>XV_demosaic_Initialize\<close> and
  \<^verbatim>\<open>XVprocSs_SetSubsystemConfig\<close>, and a status of \<^verbatim>\<open>rpi_cam_init\<close> that is neither
  \<^verbatim>\<open>XST_SUCCESS\<close> nor \<^verbatim>\<open>XST_FAILURE\<close>, have no part in it.
\<close>

lemma pipe_init_status:
  "(ret (pipe_init fp cfg env pipe devids) = Return s \<longrightarrow>
      s = XST_SUCCESS \<or> s = XST_FAILURE) \<and>
   (ret (pipe_init fp cfg env pipe devids) = Return XST_FAILURE \<longleftrightarrow>
      ret_XGpio_Initialize env \<noteq> XST_SUCCESS \<or>
      ret_IicAxiInit env \<noteq> XST_SUCCESS \<or>
      ret_rpi_cam_init env = XST_FAILURE \<or>
      ret_FrmbufWrInit env \<noteq> XST_SUCCESS \<or>
      ret_FrmbufRdInit env \<noteq> XST_SUCCESS \<or>
      ret_XV_gamma_lut_Initialize env \<noteq> XST_SUCCESS \<or>
      ret_XVprocSs_LookupConfig env = None \<or>
      ret_XVprocSs_CfgInitialize env \<noteq> XST_SUCCESS)"
proof -
  have range: "ret (pipe_init fp cfg env pipe devids) = Return s \<longrightarrow>
      s = XST_SUCCESS \<or> s = XST_FAILURE"
    by (simp add: pipe_init_def Let_def split: option.split)
  have failure: "ret (pipe_init fp cfg env pipe devids) = Return XST_FAILURE \<longleftrightarrow>
      ret_XGpio_Initialize env \<noteq> XST_SUCCESS \<or>
      ret_IicAxiInit env \<noteq> XST_SUCCESS \<or>
      ret_rpi_cam_init env = XST_FAILURE \<or>
      ret_FrmbufWrInit env \<noteq> XST_SUCCESS \<or>
      ret_FrmbufRdInit env \<noteq> XST_SUCCESS \<or>
      ret_XV_gamma_lut_Initialize env \<noteq> XST_SUCCESS \<or>
      ret_XVprocSs_LookupConfig env = None \<or>
      ret_XVprocSs_CfgInitialize env \<noteq> XST_SUCCESS"
    by (simp add: pipe_init_def Let_def XST_SUCCESS_def XST_FAILURE_def split: option.split)
  from range failure show ?thesis
    by (rule conjI)
qed

text \<open>A checked step that fails with a vendor code of its own: the code is not passed on.\<close>

lemma pipe_init_status_example:
  "ret (pipe_init test_fpu test_config (test_drivers\<lparr>ret_XV_gamma_lut_Initialize := 17\<rparr>)
     test_pipe test_devids) = Return XST_FAILURE \<and>
   ret (pipe_init test_fpu test_config (test_drivers\<lparr>ret_XV_gamma_lut_Initialize := 17\<rparr>)
     test_pipe test_devids) \<noteq> Return 17"
proof -
  have "ret_XV_gamma_lut_Initialize (test_drivers\<lparr>ret_XV_gamma_lut_Initialize := 17\<rparr>) \<noteq>
      XST_SUCCESS"
    by (simp add: XST_SUCCESS_def)
  with pipe_init_status [of test_fpu test_config
      "test_drivers\<lparr>ret_XV_gamma_lut_Initialize := 17\<rparr>" test_pipe test_devids 17]
  show ?thesis
    by (simp add: XST_SUCCESS_def XST_FAILURE_def)
qed

text \<open>
  Claim C7 says that \<^verbatim>\<open>pipe_init\<close> returns \<^verbatim>\<open>XST_SUCCESS\<close> or \<^verbatim>\<open>XST_FAILURE\<close> and that each
  failing step is mapped to \<^verbatim>\<open>XST_FAILURE\<close>. On the concrete board three failing steps are
  mapped to \<^verbatim>\<open>XST_SUCCESS\<close> instead: \<^verbatim>\<open>XVprocSs_SetSubsystemConfig\<close> returning
  \<^verbatim>\<open>XST_FAILURE\<close>, \<^verbatim>\<open>XV_demosaic_Initialize\<close> returning the code 2, and \<^verbatim>\<open>rpi_cam_init\<close>
  returning the code 2, each with every other driver call succeeding.
\<close>

theorem pipe_init_failing_step_returns_success:
  "ret (pipe_init test_fpu test_config
         (test_drivers\<lparr>ret_XVprocSs_SetSubsystemConfig := XST_FAILURE\<rparr>)
         test_pipe test_devids) = Return XST_SUCCESS \<and>
   ret (pipe_init test_fpu test_config
         (test_drivers\<lparr>ret_XV_demosaic_Initialize := 2\<rparr>)
         test_pipe test_devids) = Return XST_SUCCESS \<and>
   ret (pipe_init test_fpu test_config
         (test_drivers\<lparr>ret_rpi_cam_init := 2\<rparr>)
         test_pipe test_devids) = Return XST_SUCCESS \<and>
   Return XST_SUCCESS \<noteq> Return XST_FAILURE"
proof -
  have run1: "ret (pipe_init test_fpu test_config
         (test_drivers\<lparr>ret_XVprocSs_SetSubsystemConfig := XST_FAILURE\<rparr>)
         test_pipe test_devids) = Return XST_SUCCESS"
    by (simp add: pipe_init_def Let_def test_defs)
  have run2: "ret (pipe_init test_fpu test_config
         (test_drivers\<lparr>ret_XV_demosaic_Initialize := 2\<rparr>)
         test_pipe test_devids) = Return XST_SUCCESS"
    by (simp add: pipe_init_def Let_def test_defs)
  have run3: "ret (pipe_init test_fpu test_config
         (test_drivers\<lparr>ret_rpi_cam_init := 2\<rparr>)
         test_pipe test_devids) = Return XST_SUCCESS"
    by (simp add: pipe_init_def Let_def test_defs)
  have differ: "Return XST_SUCCESS \<noteq> Return XST_FAILURE"
    by (simp add: XST_SUCCESS_def XST_FAILURE_def)
  from run1 run2 run3 differ show ?thesis
    by simp
qed

subsection \<open>The connection flag\<close>

text \<open>
  Claim C8: after \<^verbatim>\<open>pipe_init\<close>, \<^verbatim>\<open>pipe->IsConnected\<close> is \<^verbatim>\<open>TRUE\<close> when the run returned
  \<^verbatim>\<open>XST_SUCCESS\<close>; it is \<^verbatim>\<open>FALSE\<close> when the run ended on the camera path (GPIO and I2C
  initialised, \<^verbatim>\<open>rpi_cam_init\<close> returned \<^verbatim>\<open>XST_FAILURE\<close>); on every other path it is what
  it was before the call. The witness runs the three cases, the last one with a pipe that
  was connected before: the run returns \<^verbatim>\<open>XST_FAILURE\<close> and the flag is still set.
\<close>

theorem pipe_init_IsConnected:
  "IsConnected (pipe_after (pipe_init fp cfg env pipe devids)) =
     (if ret (pipe_init fp cfg env pipe devids) = Return XST_SUCCESS then True
      else if ret_XGpio_Initialize env = XST_SUCCESS \<and>
              ret_IicAxiInit env = XST_SUCCESS \<and>
              ret_rpi_cam_init env = XST_FAILURE then False
      else IsConnected pipe)"
  by (simp add: pipe_init_def Let_def XST_SUCCESS_def XST_FAILURE_def split: option.split)

theorem pipe_init_IsConnected_witness:
  "IsConnected (pipe_after
     (pipe_init test_fpu test_config test_drivers (test_pipe\<lparr>IsConnected := False\<rparr>)
        test_devids)) \<and>
   \<not> IsConnected (pipe_after
     (pipe_init test_fpu test_config (test_drivers\<lparr>ret_rpi_cam_init := XST_FAILURE\<rparr>)
        test_pipe test_devids)) \<and>
   ret (pipe_init test_fpu test_config (test_drivers\<lparr>ret_FrmbufRdInit := XST_FAILURE\<rparr>)
        test_pipe test_devids) = Return XST_FAILURE \<and>
   IsConnected (pipe_after
     (pipe_init test_fpu test_config (test_drivers\<lparr>ret_FrmbufRdInit := XST_FAILURE\<rparr>)
        test_pipe test_devids))"
proof -
  have run1: "ret (pipe_init test_fpu test_config test_drivers
      (test_pipe\<lparr>IsConnected := False\<rparr>) test_devids) = Return XST_SUCCESS"
    by (simp add: pipe_init_def Let_def test_defs)
  have run2: "ret (pipe_init test_fpu test_config
      (test_drivers\<lparr>ret_rpi_cam_init := XST_FAILURE\<rparr>) test_pipe test_devids) =
      Return XST_FAILURE"
    by (simp add: pipe_init_def Let_def test_defs)
  have run3: "ret (pipe_init test_fpu test_config
      (test_drivers\<lparr>ret_FrmbufRdInit := XST_FAILURE\<rparr>) test_pipe test_devids) =
      Return XST_FAILURE"
    by (simp add: pipe_init_def Let_def test_defs)
  have c1: "IsConnected (pipe_after
     (pipe_init test_fpu test_config test_drivers (test_pipe\<lparr>IsConnected := False\<rparr>)
        test_devids))"
    using pipe_init_IsConnected [of test_fpu test_config test_drivers
        "test_pipe\<lparr>IsConnected := False\<rparr>" test_devids] run1
    by simp
  have c2: "\<not> IsConnected (pipe_after
     (pipe_init test_fpu test_config (test_drivers\<lparr>ret_rpi_cam_init := XST_FAILURE\<rparr>)
        test_pipe test_devids))"
    using pipe_init_IsConnected [of test_fpu test_config
        "test_drivers\<lparr>ret_rpi_cam_init := XST_FAILURE\<rparr>" test_pipe test_devids] run2
    by (simp add: test_defs)
  have c3: "IsConnected (pipe_after
     (pipe_init test_fpu test_config (test_drivers\<lparr>ret_FrmbufRdInit := XST_FAILURE\<rparr>)
        test_pipe test_devids))"
    using pipe_init_IsConnected [of test_fpu test_config
        "test_drivers\<lparr>ret_FrmbufRdInit := XST_FAILURE\<rparr>" test_pipe test_devids] run3
    by (simp add: test_defs)
  from c1 c2 run3 c3 show ?thesis
    by simp
qed

subsection \<open>The camera is powered before it is used\<close>

text \<open>
  A run either stops after the GPIO initialisation, or starts with the GPIO
  initialisation, the direction write, the enable write and \<^verbatim>\<open>IicAxiInit\<close>.
\<close>

lemma pipe_init_calls_head:
  "calls (pipe_init fp cfg env pipe devids) =
     [XGpio_Initialize (Gpio devids),
      xil_printf (''Gpio Initialization Failed'' @ [CR, LF])] \<or>
   take 4 (calls (pipe_init fp cfg env pipe devids)) =
     [XGpio_Initialize (Gpio devids),
      XGpio_SetDataDirection 1 (NOT (GPIO_CAM_IO0_MASK cfg + GPIO_CAM_IO1_MASK cfg)),
      XGpio_DiscreteWrite 1 (GPIO_CAM_IO0_MASK cfg),
      IicAxiInit (Iic devids) (IicIntr devids)]"
  by (simp add: pipe_init_def Let_def split: option.split)

text \<open>With masks that share no bit, the direction value clears both camera bits.\<close>

lemma direction_mask_outputs:
  fixes a b :: u32
  assumes "a AND b = 0"
  shows "NOT (a + b) AND (a OR b) = 0"
proof -
  have "a + b = a OR b"
    using assms by (rule disjunctive_add_eq_or)
  then show ?thesis
    by (simp only: bit.conj_cancel_left)
qed

text \<open>
  Claim C9: wherever \<^verbatim>\<open>IicAxiInit\<close> or \<^verbatim>\<open>rpi_cam_init\<close> stands in the calls of a run of
  \<^verbatim>\<open>pipe_init\<close>, it stands after position 2; position 1 is the direction write with
  \<^verbatim>\<open>~(GPIO_CAM_IO0_MASK+GPIO_CAM_IO1_MASK)\<close> on channel 1 and position 2 is the write of
  \<^verbatim>\<open>GPIO_CAM_IO0_MASK\<close> to channel 1 that enables the camera. When the two masks share
  no bit, the direction value has both camera bits clear, that is, they are outputs.
\<close>

theorem pipe_init_camera_powered_first:
  assumes "j < length (calls (pipe_init fp cfg env pipe devids))"
    and "is_camera_bringup (calls (pipe_init fp cfg env pipe devids) ! j)"
  shows "2 < j \<and>
    calls (pipe_init fp cfg env pipe devids) ! 1 =
      XGpio_SetDataDirection 1 (NOT (GPIO_CAM_IO0_MASK cfg + GPIO_CAM_IO1_MASK cfg)) \<and>
    calls (pipe_init fp cfg env pipe devids) ! 2 =
      XGpio_DiscreteWrite 1 (GPIO_CAM_IO0_MASK cfg) \<and>
    (GPIO_CAM_IO0_MASK cfg AND GPIO_CAM_IO1_MASK cfg = 0 \<longrightarrow>
       NOT (GPIO_CAM_IO0_MASK cfg + GPIO_CAM_IO1_MASK cfg) AND
         (GPIO_CAM_IO0_MASK cfg OR GPIO_CAM_IO1_MASK cfg) = 0)"
proof -
  let ?cs = "calls (pipe_init fp cfg env pipe devids)"
  let ?head = "[XGpio_Initialize (Gpio devids),
      XGpio_SetDataDirection 1 (NOT (GPIO_CAM_IO0_MASK cfg + GPIO_CAM_IO1_MASK cfg)),
      XGpio_DiscreteWrite 1 (GPIO_CAM_IO0_MASK cfg),
      IicAxiInit (Iic devids) (IicIntr devids)]"
  have not_short: "?cs \<noteq> [XGpio_Initialize (Gpio devids),
      xil_printf (''Gpio Initialization Failed'' @ [CR, LF])]"
  proof
    assume short: "?cs = [XGpio_Initialize (Gpio devids),
      xil_printf (''Gpio Initialization Failed'' @ [CR, LF])]"
    with assms(1) have "j = 0 \<or> j = 1"
      by auto
    with short assms(2) show False
      by auto
  qed
  with pipe_init_calls_head [of fp cfg env pipe devids] have head: "take 4 ?cs = ?head"
    by blast
  have nth: "?cs ! i = ?head ! i" if "i < 4" for i
    using that head nth_take [of i 4 ?cs] by simp
  have p0: "?cs ! 0 = XGpio_Initialize (Gpio devids)"
    using nth [of 0] by simp
  have p1: "?cs ! 1 =
      XGpio_SetDataDirection 1 (NOT (GPIO_CAM_IO0_MASK cfg + GPIO_CAM_IO1_MASK cfg))"
    using nth [of 1] by simp
  have p2: "?cs ! 2 = XGpio_DiscreteWrite 1 (GPIO_CAM_IO0_MASK cfg)"
    using nth [of 2] by simp
  have "2 < j"
  proof (rule ccontr)
    assume "\<not> 2 < j"
    then have "j = 0 \<or> j = 1 \<or> j = 2"
      by arith
    with assms(2) p0 p1 p2 show False
      by auto
  qed
  with p1 p2 show ?thesis
    by (simp add: direction_mask_outputs)
qed

theorem pipe_init_camera_powered_first_witness:
  "calls (pipe_init test_fpu test_config test_drivers test_pipe test_devids) ! 3 =
     IicAxiInit 1 121 \<and>
   calls (pipe_init test_fpu test_config test_drivers test_pipe test_devids) ! 1 =
     XGpio_SetDataDirection 1 (NOT 3) \<and>
   calls (pipe_init test_fpu test_config test_drivers test_pipe test_devids) ! 2 =
     XGpio_DiscreteWrite 1 1 \<and>
   NOT (3 :: u32) AND 3 = 0"
proof -
  have third: "calls (pipe_init test_fpu test_config test_drivers test_pipe test_devids) ! 3 =
      IicAxiInit 1 121"
    by (simp add: pipe_init_def Let_def test_defs)
  have len: "3 < length (calls (pipe_init test_fpu test_config test_drivers test_pipe
      test_devids))"
    by (simp add: pipe_init_def Let_def test_defs)
  have bringup: "is_camera_bringup
      (calls (pipe_init test_fpu test_config test_drivers test_pipe test_devids) ! 3)"
    by (simp add: third)
  from pipe_init_camera_powered_first [OF len bringup] third show ?thesis
    by (simp add: test_config_def)
qed

subsection \<open>The gamma table\<close>





end
